theory Spec2Isabelle
  imports Complex_Main "HOL-Library.Monad_Syntax"
begin

section \<open>JavaScript values\<close>

text \<open>
  The services exchange plain JSON data: provider records from the listings API and
  analysis objects parsed from a vision model's reply. A value is one of the JSON
  shapes or \<open>undefined\<close> (what reading an absent field gives). Numbers are finite;
  \<open>NaN\<close> only arises as the result of a numeric conversion. An object is its list of
  own fields.
\<close>

datatype jsval =
    JUndefined
  | JNull
  | JBool bool
  | JNum real
  | JStr string
  | JArr "jsval list"
  | JObj "(string \<times> jsval) list"

text \<open>Truthiness, as \<open>!x\<close>, \<open>x || y\<close> and \<open>x && y\<close> test it.\<close>

fun truthy :: "jsval \<Rightarrow> bool" where
  "truthy JUndefined = False"
| "truthy JNull = False"
| "truthy (JBool b) = b"
| "truthy (JNum n) = (n \<noteq> 0)"
| "truthy (JStr s) = (s \<noteq> [])"
| "truthy (JArr xs) = True"
| "truthy (JObj fs) = True"

definition js_or :: "jsval \<Rightarrow> jsval \<Rightarrow> jsval" where
  "js_or a b = (if truthy a then a else b)"

text \<open>
  \<open>a === b\<close>. Primitives are compared by value. Arrays and objects are compared by
  identity; the two operands always come from different documents here (the provider
  record, the parsed analysis, a literal), so they are never the same object.
\<close>

fun strict_eq :: "jsval \<Rightarrow> jsval \<Rightarrow> bool" where
  "strict_eq JUndefined JUndefined = True"
| "strict_eq JNull JNull = True"
| "strict_eq (JBool a) (JBool b) = (a = b)"
| "strict_eq (JNum a) (JNum b) = (a = b)"
| "strict_eq (JStr a) (JStr b) = (a = b)"
| "strict_eq a b = False"

definition strict_neq :: "jsval \<Rightarrow> jsval \<Rightarrow> bool" where
  "strict_neq a b = (\<not> strict_eq a b)"

text \<open>
  Reading a field, \<open>v.k\<close>: a \<open>TypeError\<close> on \<open>undefined\<close> and \<open>null\<close> (the
  \<open>None\<close> here), the field or \<open>undefined\<close> on an object, \<open>undefined\<close> on every other
  value (none of the field names read by the services is a built-in property).
\<close>

definition field :: "jsval \<Rightarrow> string \<Rightarrow> jsval" where
  "field v k = (case v of
       JObj fs \<Rightarrow> (case map_of fs k of Some x \<Rightarrow> x | None \<Rightarrow> JUndefined)
     | _ \<Rightarrow> JUndefined)"

definition get_prop :: "jsval \<Rightarrow> string \<Rightarrow> jsval option" where
  "get_prop v k = (case v of
       JUndefined \<Rightarrow> None
     | JNull \<Rightarrow> None
     | _ \<Rightarrow> Some (field v k))"

text \<open>
  Conversion of an object or an array to a primitive, as \<open>x >= n\<close>, \<open>x - n\<close> and a
  template literal \<open>${x}\<close> do it, calls the value's \<open>valueOf\<close> and \<open>toString\<close>. A
  field of JSON data is never a function, so an own field \<open>toString\<close> hides the
  inherited method, no call yields a primitive (the inherited \<open>valueOf\<close> returns the
  object itself), and the conversion throws a \<open>TypeError\<close>. An array is converted by
  joining the conversions of its elements, and throws when one of them does.
\<close>

fun to_primitive_throws :: "jsval \<Rightarrow> bool" where
  "to_primitive_throws (JObj fs) = (map_of fs ''toString'' \<noteq> None)"
| "to_primitive_throws (JArr xs) = list_ex to_primitive_throws xs"
| "to_primitive_throws v = False"

text \<open>
  Numeric conversion for \<open>x >= n\<close> and \<open>x - n\<close>. The outer \<open>None\<close> is the \<open>TypeError\<close>
  above; the inner \<open>None\<close> is \<open>NaN\<close>. On \<open>undefined\<close>, \<open>null\<close>, booleans and numbers
  the result is written out; an object that converts at all converts to the text
  \<open>[object Object]\<close>, which is not a number. The number a string stands for (also the
  string an array joins to) is the language's string-to-number conversion, a function of
  the value only, taken as the parameter \<open>cv\<close>.
\<close>

type_synonym coercion = "jsval \<Rightarrow> real option"

fun ToNumber :: "coercion \<Rightarrow> jsval \<Rightarrow> real option option" where
  "ToNumber cv JUndefined = Some None"
| "ToNumber cv JNull = Some (Some 0)"
| "ToNumber cv (JBool b) = Some (Some (if b then 1 else 0))"
| "ToNumber cv (JNum n) = Some (Some n)"
| "ToNumber cv (JStr s) = Some (cv (JStr s))"
| "ToNumber cv (JArr xs) =
     (if to_primitive_throws (JArr xs) then None else Some (cv (JArr xs)))"
| "ToNumber cv (JObj fs) = (if to_primitive_throws (JObj fs) then None else Some None)"

text \<open>\<open>x >= k\<close>: \<open>None\<close> when the conversion throws; a comparison with \<open>NaN\<close> is false.\<close>

definition js_ge :: "coercion \<Rightarrow> jsval \<Rightarrow> real \<Rightarrow> bool option" where
  "js_ge cv v k =
     map_option (\<lambda>n. case n of None \<Rightarrow> False | Some x \<Rightarrow> k \<le> x) (ToNumber cv v)"

definition is_lead_type :: "jsval \<Rightarrow> string \<Rightarrow> bool" where
  "is_lead_type leadType name = strict_eq leadType (JStr name)"

section \<open>Lead quality service\<close>

datatype severity = SevNone | Minor | Major

record detail =
  detail_field :: string
  zillowValue :: jsval
  visualValue :: jsval
  detail_confidence :: jsval

record discrepancy =
  detected :: bool
  dtype :: "string option"
  details :: "detail list"
  confidenceDiff :: "real option"
  severity :: severity

definition fresh_discrepancy :: discrepancy where
  "fresh_discrepancy =
     \<lparr>detected = False, dtype = None, details = [], confidenceDiff = Some 0,
      severity = SevNone\<rparr>"

text \<open>\<open>!discrepancy.type\<close>: the type is \<open>null\<close> or a string.\<close>

definition no_type :: "discrepancy \<Rightarrow> bool" where
  "no_type d = (case dtype d of None \<Rightarrow> True | Some s \<Rightarrow> s = [])"

text \<open>
  \<open>Math.abs(visualConfidence - 50)\<close>, without the rounding of doubles; \<open>None\<close> when the
  conversion of the operand throws.
\<close>

definition abs_diff_50 :: "coercion \<Rightarrow> jsval \<Rightarrow> real option option" where
  "abs_diff_50 cv c = map_option (map_option (\<lambda>n. \<bar>n - 50\<bar>)) (ToNumber cv c)"

definition comparePoolData ::
  "coercion \<Rightarrow> jsval \<Rightarrow> jsval \<Rightarrow> discrepancy \<Rightarrow> discrepancy option" where
  "comparePoolData cv zillowData visualAnalysis discrepancy = do {
     zp \<leftarrow> get_prop zillowData ''has_pool'';
     vp \<leftarrow> get_prop visualAnalysis ''has_pool'';
     vc \<leftarrow> get_prop visualAnalysis ''confidence'';
     let zillowHasPool = js_or zp (JBool False);
     let visualHasPool = js_or vp (JBool False);
     let visualConfidence = js_or vc (JNum 0);
     d1 \<leftarrow> (if strict_neq zillowHasPool visualHasPool
            then do {
              major \<leftarrow> js_ge cv visualConfidence 80;
              sev \<leftarrow> (if major then Some Major
                      else do {
                        minor \<leftarrow> js_ge cv visualConfidence 60;
                        Some (if minor then Minor else severity discrepancy)
                      });
              Some (discrepancy
                 \<lparr>detected := True,
                  dtype := Some ''pool_mismatch'',
                  details := details discrepancy @
                    [\<lparr>detail_field = ''has_pool'', zillowValue = zillowHasPool,
                      visualValue = visualHasPool, detail_confidence = visualConfidence\<rparr>],
                  severity := sev\<rparr>)
            }
            else Some discrepancy);
     d2 \<leftarrow> (if truthy zillowHasPool \<and> truthy visualHasPool
            then do {
              zt \<leftarrow> get_prop zillowData ''pool_type'';
              vt \<leftarrow> get_prop visualAnalysis ''pool_type'';
              let zillowPoolType = js_or zt JNull;
              let visualPoolType = js_or vt JNull;
              Some (if truthy zillowPoolType \<and> truthy visualPoolType
                       \<and> strict_neq zillowPoolType visualPoolType
                    then d1
                      \<lparr>detected := True,
                       dtype := (if no_type d1 then Some ''pool_type_mismatch'' else dtype d1),
                       details := details d1 @
                         [\<lparr>detail_field = ''pool_type'', zillowValue = zillowPoolType,
                           visualValue = visualPoolType,
                           detail_confidence = visualConfidence\<rparr>]\<rparr>
                    else d1)
            }
            else Some d1);
     diff \<leftarrow> abs_diff_50 cv visualConfidence;
     Some (d2\<lparr>confidenceDiff := diff\<rparr>)
   }"

definition compareBackyardData ::
  "coercion \<Rightarrow> jsval \<Rightarrow> jsval \<Rightarrow> discrepancy \<Rightarrow> discrepancy option" where
  "compareBackyardData cv zillowData visualAnalysis discrepancy = do {
     vc \<leftarrow> get_prop visualAnalysis ''confidence'';
     fa \<leftarrow> get_prop visualAnalysis ''estimated_free_area'';
     ud \<leftarrow> get_prop visualAnalysis ''is_underdeveloped'';
     dp \<leftarrow> get_prop visualAnalysis ''development_potential'';
     let visualConfidence = js_or vc (JNum 0);
     let visualFreeArea = js_or fa (JStr ''low'');
     let isUnderdeveloped = js_or ud (JBool False);
     let developmentPotential = js_or dp (JStr ''low'');
     if truthy isUnderdeveloped \<and> strict_eq developmentPotential (JStr ''high'')
     then Some discrepancy
     else do {
       ls \<leftarrow> get_prop zillowData ''lot_size'';
       hb \<leftarrow> get_prop zillowData ''has_backyard'';
       let zillowLotSize = js_or ls JNull;
       let zillowHasBackyard = strict_neq hb (JBool False);
       sure \<leftarrow> (if zillowHasBackyard \<and> strict_eq visualFreeArea (JStr ''low'')
                then js_ge cv visualConfidence 90 else Some False);
       let d1 = (if sure
                 then discrepancy
                   \<lparr>detected := True,
                    dtype := Some ''backyard_size_mismatch'',
                    details := details discrepancy @
                      [\<lparr>detail_field = ''estimated_free_area'',
                        zillowValue =
                          (if truthy zillowLotSize then JStr ''large'' else JStr ''unknown''),
                        visualValue = visualFreeArea,
                        detail_confidence = visualConfidence\<rparr>],
                    severity := Major\<rparr>
                 else discrepancy);
       zs \<leftarrow> get_prop zillowData ''surface_type'';
       vs \<leftarrow> get_prop visualAnalysis ''surface_type'';
       let d2 = (if truthy zs \<and> truthy vs \<and> strict_neq zs vs
                 then d1
                   \<lparr>detected := True,
                    dtype := (if no_type d1 then Some ''surface_type_mismatch'' else dtype d1),
                    details := details d1 @
                      [\<lparr>detail_field = ''surface_type'', zillowValue = zs,
                        visualValue = vs, detail_confidence = visualConfidence\<rparr>],
                    severity := Minor\<rparr>
                 else d1);
       diff \<leftarrow> abs_diff_50 cv visualConfidence;
       Some (d2\<lparr>confidenceDiff := diff\<rparr>)
     }
   }"

definition compareZillowWithVisual ::
  "coercion \<Rightarrow> jsval \<Rightarrow> jsval \<Rightarrow> jsval \<Rightarrow> discrepancy option" where
  "compareZillowWithVisual cv zillowData visualAnalysis leadType =
     (if \<not> truthy zillowData \<or> \<not> truthy visualAnalysis then Some fresh_discrepancy
      else if is_lead_type leadType ''PoolLeadGen''
      then comparePoolData cv zillowData visualAnalysis fresh_discrepancy
      else if is_lead_type leadType ''BackyardBoost''
      then compareBackyardData cv zillowData visualAnalysis fresh_discrepancy
      else Some fresh_discrepancy)"

datatype quality = High | Medium | Low

record quality_details =
  qd_visualConfidence :: jsval
  discrepancyDetected :: bool
  discrepancyType :: "string option"
  discrepancySeverity :: severity
  qd_leadType :: jsval
  poolConfidence :: "jsval option"
  backyardConfidence :: "jsval option"

record quality_assessment =
  qa_qualityScore :: quality
  qa_confidence :: jsval
  qa_reasoning :: "string list"
  qa_details :: "quality_details option"

text \<open>The text \<open>${discrepancy.type}\<close> puts into a message.\<close>

definition type_text :: "discrepancy \<Rightarrow> string" where
  "type_text d = (case dtype d of None \<Rightarrow> ''null'' | Some s \<Rightarrow> s)"

definition calculateLeadQuality ::
  "coercion \<Rightarrow> jsval \<Rightarrow> jsval \<Rightarrow> discrepancy \<Rightarrow> jsval \<Rightarrow> quality_assessment option" where
  "calculateLeadQuality cv zillowData visualAnalysis discrepancy leadType =
     (if \<not> truthy visualAnalysis
      then Some \<lparr>qa_qualityScore = Low, qa_confidence = JNum 0,
                  qa_reasoning = [''Visual analysis failed or unavailable''],
                  qa_details = None\<rparr>
      else do {
        vc \<leftarrow> get_prop visualAnalysis ''confidence'';
        let visualConfidence = js_or vc (JNum 0);
        base80 \<leftarrow> js_ge cv visualConfidence 80;
        base60 \<leftarrow> (if base80 then Some True else js_ge cv visualConfidence 60);
        let confidence = visualConfidence;
        (qualityScore, reasoning) \<leftarrow>
          (if \<not> detected discrepancy
           then do {
             high \<leftarrow> js_ge cv visualConfidence 80;
             if high
             then Some (High, [''Visual validation confirms Zillow data with high confidence''])
             else do {
               moderate \<leftarrow> js_ge cv visualConfidence 60;
               if moderate
               then Some (Medium,
                       [''Visual validation confirms Zillow data with moderate confidence''])
               else do {
                 fair \<leftarrow> js_ge cv visualConfidence 50;
                 Some (if fair
                       then (Medium, [''Visual validation has moderate confidence''])
                       else (Medium,
                             [''Visual validation has low confidence but no contradictions'']))
               }
             }
           }
           else Some
                (if severity discrepancy = Major
                 then (Low, [''Major discrepancy detected: '' @ type_text discrepancy,
                             ''Lead requires manual review before use''])
                 else if severity discrepancy = Minor
                 then (if is_lead_type leadType ''BackyardBoost''
                       then (Medium,
                             [''Minor discrepancy detected: '' @ type_text discrepancy,
                              ''Lead still viable for BackyardBoost opportunities''])
                       else (Medium,
                             [''Minor discrepancy detected: '' @ type_text discrepancy,
                              ''Lead quality reduced due to data inconsistency'']))
                 else (Medium, [])));
        let details =
          \<lparr>qd_visualConfidence = visualConfidence,
           discrepancyDetected = detected discrepancy,
           discrepancyType = dtype discrepancy,
           discrepancySeverity = severity discrepancy,
           qd_leadType = leadType,
           poolConfidence = None,
           backyardConfidence = None\<rparr>;
        if is_lead_type leadType ''PoolLeadGen''
        then do {
          hp \<leftarrow> get_prop visualAnalysis ''has_pool'';
          confirmed \<leftarrow> (if truthy hp then js_ge cv visualConfidence 85 else Some False);
          Some \<lparr>qa_qualityScore = qualityScore, qa_confidence = confidence,
                qa_reasoning = reasoning @
                  (if confirmed
                   then [''Pool presence confirmed with high confidence''] else []),
                qa_details = Some (details\<lparr>poolConfidence := Some (js_or vc (JNum 0))\<rparr>)\<rparr>
        }
        else if is_lead_type leadType ''BackyardBoost''
        then do {
          ud \<leftarrow> get_prop visualAnalysis ''is_underdeveloped'';
          dp \<leftarrow> get_prop visualAnalysis ''development_potential'';
          eb \<leftarrow> get_prop visualAnalysis ''is_empty_backyard'';
          let isUnderdeveloped = js_or ud (JBool False);
          let developmentPotential = js_or dp (JStr ''low'');
          let bonus = (truthy isUnderdeveloped
                         \<and> strict_eq developmentPotential (JStr ''high''));
          empty \<leftarrow> (if truthy eb then js_ge cv visualConfidence 75 else Some False);
          Some \<lparr>qa_qualityScore =
                  (if bonus \<and> qualityScore = Medium then High else qualityScore),
                qa_confidence = confidence,
                qa_reasoning = reasoning @
                  (if bonus
                   then [''Underdeveloped backyard with high development potential'']
                   else []) @
                  (if empty
                   then [''Empty backyard confirmed - good opportunity for development'']
                   else []),
                qa_details =
                  Some (details\<lparr>backyardConfidence := Some (js_or vc (JNum 0))\<rparr>)\<rparr>
        }
        else Some \<lparr>qa_qualityScore = qualityScore, qa_confidence = confidence,
                   qa_reasoning = reasoning, qa_details = Some details\<rparr>
      })"

definition getRecommendation :: "quality \<Rightarrow> discrepancy \<Rightarrow> string" where
  "getRecommendation qualityScore discrepancy =
     (if qualityScore = High then ''APPROVE - Lead meets quality standards''
      else if qualityScore = Medium
      then (if detected discrepancy \<and> severity discrepancy = Major
            then ''REVIEW - Major discrepancies detected, manual review recommended''
            else ''APPROVE - Lead meets quality standards'')
      else ''REJECT - Lead quality too low, major discrepancies detected'')"

record flag_evidence =
  fe_satelliteImageUrl :: jsval
  fe_zillowData :: jsval
  fe_visualAnalysis :: jsval
  fe_discrepancyDetails :: "detail list"
  fe_visualConfidence :: jsval
  fe_leadType :: jsval

record flag =
  flag_leadId :: jsval
  flagType :: "string option"
  flaggedAt :: string
  flag_evidence :: flag_evidence
  flag_status :: string
  requiresReview :: bool

text \<open>
  Every evidence field has a default, \<open>x || d\<close>; the detail list is an array, which is
  truthy, so its default \<open>[]\<close> is never taken. \<open>now\<close> is the clock reading
  \<open>new Date().toISOString()\<close>. The log line puts \<open>${leadId}\<close> into a text: \<open>None\<close>
  is the \<open>TypeError\<close> of a lead identifier that has no conversion.
\<close>

definition flagLeadDiscrepancy ::
  "string \<Rightarrow> jsval \<Rightarrow> string option \<Rightarrow> flag_evidence \<Rightarrow> flag option" where
  "flagLeadDiscrepancy now lead_id discrepancy_type evidence =
     (if to_primitive_throws lead_id then None else Some
     \<lparr>flag_leadId = lead_id,
      flagType = discrepancy_type,
      flaggedAt = now,
      flag_evidence = evidence
        \<lparr>fe_satelliteImageUrl := js_or (fe_satelliteImageUrl evidence) JNull,
         fe_zillowData := js_or (fe_zillowData evidence) (JObj []),
         fe_visualAnalysis := js_or (fe_visualAnalysis evidence) (JObj []),
         fe_visualConfidence := js_or (fe_visualConfidence evidence) (JNum 0),
         fe_leadType := js_or (fe_leadType evidence) JNull\<rparr>,
      flag_status = ''flagged'',
      requiresReview = True\<rparr>)"

record quality_report =
  r_leadId :: jsval
  r_leadType :: jsval
  assessmentTimestamp :: string
  qualityScore :: quality
  confidence :: jsval
  reasoning :: "string list"
  discrepancy :: discrepancy
  ev_satelliteImageUrl :: jsval
  ev_visualAnalysis :: jsval
  ev_zillowData :: jsval
  recommendation :: string
  report_flag :: "flag option"

definition generateQualityReport ::
  "coercion \<Rightarrow> string \<Rightarrow> jsval \<Rightarrow> jsval \<Rightarrow> jsval \<Rightarrow> jsval \<Rightarrow> quality_report option" where
  "generateQualityReport cv now lead_id zillowData visualValidation lead_type = do {
     an \<leftarrow> get_prop visualValidation ''analysis'';
     let visualAnalysis = js_or an (JObj []);
     im \<leftarrow> get_prop visualValidation ''satelliteImageUrl'';
     let satelliteImageUrl = js_or im JNull;
     d \<leftarrow> compareZillowWithVisual cv zillowData visualAnalysis lead_type;
     qa \<leftarrow> calculateLeadQuality cv zillowData visualAnalysis d lead_type;
     vc \<leftarrow> get_prop visualAnalysis ''confidence'';
     fl \<leftarrow> (if detected d \<and> severity d = Major
            then map_option Some (flagLeadDiscrepancy now lead_id (dtype d)
                     \<lparr>fe_satelliteImageUrl = satelliteImageUrl,
                      fe_zillowData = zillowData,
                      fe_visualAnalysis = visualAnalysis,
                      fe_discrepancyDetails = details d,
                      fe_visualConfidence = js_or vc (JNum 0),
                      fe_leadType = lead_type\<rparr>)
            else Some None);
     Some \<lparr>r_leadId = lead_id,
           r_leadType = lead_type,
           assessmentTimestamp = now,
           qualityScore = qa_qualityScore qa,
           confidence = qa_confidence qa,
           reasoning = qa_reasoning qa,
           discrepancy = d,
           ev_satelliteImageUrl = satelliteImageUrl,
           ev_visualAnalysis = visualAnalysis,
           ev_zillowData = zillowData,
           recommendation = getRecommendation (qa_qualityScore qa) d,
           report_flag = fl\<rparr>
   }"

text \<open>
  The recommendation as the specification words it: a function of the quality score and
  the severity alone.
\<close>

definition recommendation_spec :: "quality \<Rightarrow> severity \<Rightarrow> string" where
  "recommendation_spec q s =
     (case q of
        High \<Rightarrow> ''APPROVE - Lead meets quality standards''
      | Medium \<Rightarrow>
          (if s = Major
           then ''REVIEW - Major discrepancies detected, manual review recommended''
           else ''APPROVE - Lead meets quality standards'')
      | Low \<Rightarrow> ''REJECT - Lead quality too low, major discrepancies detected'')"

definition verdict :: "string \<Rightarrow> string" where
  "verdict r = takeWhile (\<lambda>c. c \<noteq> CHR '' '') r"

section \<open>Visual inspector\<close>

text \<open>
  An exception is a value. \<open>Wrapped p e\<close> is \<open>new Error(p + e.message)\<close>, the way every
  \<open>catch\<close> block of the inspector rethrows; \<open>TypeError\<close> and \<open>SyntaxError\<close> are the
  ones the runtime raises.
\<close>

datatype error = Error string | TypeError | SyntaxError | Wrapped string error

text \<open>
  The text of a provider's reply, as far as \<open>parseAnalysisResponse\<close> looks at it: not a
  string at all, no match of the pattern \<open>{...}\<close>, a match that \<open>JSON.parse\<close> rejects,
  or a match that parses (then it is an object, given by its fields).
\<close>

datatype llm_text =
    NotAString
  | NoJsonMatch
  | JsonSyntaxError
  | JsonObject "(string \<times> jsval) list"

datatype image_url = StaticMap real real

datatype call = MapsGet real real | OpenAIPost | GroqPost | ImageFetch | GeminiPost

record config =
  googleMapsApiKey :: jsval
  openaiApiKey :: jsval
  groqApiKey :: jsval
  geminiApiKey :: jsval

text \<open>
  What the outside world answers to each request of one verification. A provider's
  answer is the text of its reply, or the exception of a failed request (network,
  authentication, a reply without the expected path).
\<close>

record services =
  maps_get :: "real \<Rightarrow> real \<Rightarrow> error option"
  openai_post :: "image_url \<Rightarrow> jsval \<Rightarrow> error + llm_text"
  groq_post :: "image_url \<Rightarrow> jsval \<Rightarrow> error + llm_text"
  image_fetch :: "image_url \<Rightarrow> error option"
  gemini_post :: "image_url \<Rightarrow> jsval \<Rightarrow> error + llm_text"

definition is_boolean :: "jsval \<Rightarrow> bool" where
  "is_boolean v = (case v of JBool _ \<Rightarrow> True | _ \<Rightarrow> False)"

definition is_number :: "jsval \<Rightarrow> bool" where
  "is_number v = (case v of JNum _ \<Rightarrow> True | _ \<Rightarrow> False)"

definition invalid_confidence :: "jsval \<Rightarrow> bool" where
  "invalid_confidence v = (case v of JNum n \<Rightarrow> n < 0 \<or> 100 < n | _ \<Rightarrow> True)"

definition js_includes :: "string list \<Rightarrow> jsval \<Rightarrow> bool" where
  "js_includes names v = list_ex (\<lambda>n. strict_eq v (JStr n)) names"

definition valid_lead_type :: "jsval \<Rightarrow> bool" where
  "valid_lead_type leadType = js_includes [''PoolLeadGen'', ''BackyardBoost''] leadType"

definition rethrow :: "string \<Rightarrow> (error + 'a) \<times> call list \<Rightarrow> (error + 'a) \<times> call list" where
  "rethrow prefix r = (case r of
       (Inl e, calls) \<Rightarrow> (Inl (Wrapped prefix e), calls)
     | (Inr a, calls) \<Rightarrow> (Inr a, calls))"

definition getGoogleMapsStaticImage ::
  "config \<Rightarrow> services \<Rightarrow> jsval \<Rightarrow> jsval \<Rightarrow> (error + image_url) \<times> call list" where
  "getGoogleMapsStaticImage cfg w latitude longitude =
     rethrow ''Failed to fetch satellite image: ''
       (if \<not> truthy (googleMapsApiKey cfg)
        then (Inl (Error ''GOOGLE_MAPS_API_KEY is not configured''), [])
        else (case (latitude, longitude) of
            (JNum lat, JNum lon) \<Rightarrow>
              (case maps_get w lat lon of
                 Some e \<Rightarrow> (Inl e, [MapsGet lat lon])
               | None \<Rightarrow> (Inr (StaticMap lat lon), [MapsGet lat lon]))
          | _ \<Rightarrow> (Inl (Error ''Latitude and longitude must be numbers''), [])))"

definition validate_analysis :: "llm_text \<Rightarrow> jsval \<Rightarrow> error + jsval" where
  "validate_analysis responseText leadType = (case responseText of
       NotAString \<Rightarrow> Inl TypeError
     | NoJsonMatch \<Rightarrow> Inl (Error ''No JSON found in LLM response'')
     | JsonSyntaxError \<Rightarrow> Inl SyntaxError
     | JsonObject fs \<Rightarrow>
         (let analysis = JObj fs in
          if is_lead_type leadType ''PoolLeadGen''
          then (if \<not> is_boolean (field analysis ''has_pool'')
                then Inl (Error ''Invalid has_pool field in response'')
                else if invalid_confidence (field analysis ''confidence'')
                then Inl (Error ''Invalid confidence score in response'')
                else Inr analysis)
          else if is_lead_type leadType ''BackyardBoost''
          then (if \<not> is_boolean (field analysis ''is_empty_backyard'')
                then Inl (Error ''Invalid is_empty_backyard field in response'')
                else if \<not> is_boolean (field analysis ''is_underdeveloped'')
                then Inl (Error ''Invalid is_underdeveloped field in response'')
                else if \<not> js_includes [''high'', ''medium'', ''low'']
                            (field analysis ''estimated_free_area'')
                then Inl (Error ''Invalid estimated_free_area in response'')
                else if \<not> js_includes [''high'', ''medium'', ''low'']
                            (field analysis ''development_potential'')
                then Inl (Error ''Invalid development_potential in response'')
                else if invalid_confidence (field analysis ''confidence'')
                then Inl (Error ''Invalid confidence score in response'')
                else Inr analysis)
          else Inr analysis))"

definition parseAnalysisResponse :: "llm_text \<Rightarrow> jsval \<Rightarrow> error + jsval" where
  "parseAnalysisResponse responseText leadType =
     (case validate_analysis responseText leadType of
        Inl e \<Rightarrow> Inl (Wrapped ''Failed to parse LLM analysis: '' e)
      | Inr analysis \<Rightarrow> Inr analysis)"

definition analyzePropertyWithGroq ::
  "config \<Rightarrow> services \<Rightarrow> image_url option \<Rightarrow> jsval \<Rightarrow> (error + jsval) \<times> call list" where
  "analyzePropertyWithGroq cfg w imageUrl leadType =
     rethrow ''Failed to analyze image with Groq: ''
       (if \<not> truthy (groqApiKey cfg) then (Inl (Error ''GROQ_API_KEY is not configured''), [])
        else (case imageUrl of
            None \<Rightarrow> (Inl (Error ''Image URL is required''), [])
          | Some url \<Rightarrow>
              if \<not> valid_lead_type leadType
              then (Inl (Error ''Lead type must be either PoolLeadGen or BackyardBoost''), [])
              else (case groq_post w url leadType of
                      Inl e \<Rightarrow> (Inl e, [GroqPost])
                    | Inr analysisText \<Rightarrow>
                        (parseAnalysisResponse analysisText leadType, [GroqPost]))))"

definition fetchImageAsBase64 :: "services \<Rightarrow> image_url \<Rightarrow> (error + unit) \<times> call list" where
  "fetchImageAsBase64 w url =
     rethrow ''Failed to fetch image: ''
       (case image_fetch w url of
          Some e \<Rightarrow> (Inl e, [ImageFetch])
        | None \<Rightarrow> (Inr (), [ImageFetch]))"

definition analyzePropertyWithGemini ::
  "config \<Rightarrow> services \<Rightarrow> image_url option \<Rightarrow> jsval \<Rightarrow> (error + jsval) \<times> call list" where
  "analyzePropertyWithGemini cfg w imageUrl leadType =
     rethrow ''Failed to analyze image with Gemini: ''
       (if \<not> truthy (geminiApiKey cfg)
        then (Inl (Error ''GEMINI_API_KEY is not configured''), [])
        else (case imageUrl of
            None \<Rightarrow> (Inl (Error ''Image URL is required''), [])
          | Some url \<Rightarrow>
              if \<not> valid_lead_type leadType
              then (Inl (Error ''Lead type must be either PoolLeadGen or BackyardBoost''), [])
              else (case fetchImageAsBase64 w url of
                      (Inl e, calls) \<Rightarrow> (Inl e, calls)
                    | (Inr _, calls) \<Rightarrow>
                        (case gemini_post w url leadType of
                           Inl e \<Rightarrow> (Inl e, calls @ [GeminiPost])
                         | Inr analysisText \<Rightarrow>
                             (parseAnalysisResponse analysisText leadType,
                              calls @ [GeminiPost])))))"

text \<open>The \<open>try\<close> block of \<open>analyzePropertyWithLLM\<close>: the attempt on the primary provider.\<close>

definition analyze_primary ::
  "config \<Rightarrow> services \<Rightarrow> image_url option \<Rightarrow> jsval \<Rightarrow> (error + jsval) \<times> call list" where
  "analyze_primary cfg w imageUrl leadType =
     (if \<not> truthy (openaiApiKey cfg) then analyzePropertyWithGroq cfg w imageUrl leadType
      else (case imageUrl of
          None \<Rightarrow> (Inl (Error ''Image URL is required''), [])
        | Some url \<Rightarrow>
            if \<not> valid_lead_type leadType
            then (Inl (Error ''Lead type must be either PoolLeadGen or BackyardBoost''), [])
            else (case openai_post w url leadType of
                    Inl e \<Rightarrow> (Inl e, [OpenAIPost])
                  | Inr analysisText \<Rightarrow>
                      (parseAnalysisResponse analysisText leadType, [OpenAIPost]))))"

text \<open>The \<open>catch\<close> block: Groq, then Gemini, then the error naming the primary's.\<close>

definition analyze_fallback ::
  "config \<Rightarrow> services \<Rightarrow> image_url option \<Rightarrow> jsval \<Rightarrow> error \<Rightarrow> (error + jsval) \<times> call list"
  where
  "analyze_fallback cfg w imageUrl leadType e =
     (case analyzePropertyWithGroq cfg w imageUrl leadType of
        (Inr analysis, calls1) \<Rightarrow> (Inr analysis, calls1)
      | (Inl groqError, calls1) \<Rightarrow>
          (case analyzePropertyWithGemini cfg w imageUrl leadType of
             (Inr analysis, calls2) \<Rightarrow> (Inr analysis, calls1 @ calls2)
           | (Inl geminiError, calls2) \<Rightarrow>
               (Inl (Wrapped
                  ''Failed to analyze image with all providers (OpenAI, Groq, Gemini): '' e),
                calls1 @ calls2)))"

definition analyzePropertyWithLLM ::
  "config \<Rightarrow> services \<Rightarrow> image_url option \<Rightarrow> jsval \<Rightarrow> (error + jsval) \<times> call list" where
  "analyzePropertyWithLLM cfg w imageUrl leadType =
     (case analyze_primary cfg w imageUrl leadType of
        (Inr analysis, calls) \<Rightarrow> (Inr analysis, calls)
      | (Inl e, calls) \<Rightarrow>
          (case analyze_fallback cfg w imageUrl leadType e of
             (r, calls') \<Rightarrow> (r, calls @ calls')))"

text \<open>
  The verification logs \<open>${leadType}\<close> before its first step and \<open>${analysis.model}\<close>
  after its last, inside the \<open>try\<close>: a value without a conversion to text fails it
  there.
\<close>

record validation =
  v_leadType :: jsval
  v_satelliteImageUrl :: image_url
  v_analysis :: jsval
  v_timestamp :: string

definition verify_property_visually ::
  "config \<Rightarrow> services \<Rightarrow> string \<Rightarrow> jsval \<Rightarrow> jsval \<Rightarrow> jsval \<Rightarrow>
     (error + validation) \<times> call list" where
  "verify_property_visually cfg w now latitude longitude leadType =
     rethrow ''Visual property verification failed: ''
       (if to_primitive_throws leadType then (Inl TypeError, [])
        else (case getGoogleMapsStaticImage cfg w latitude longitude of
          (Inl e, calls) \<Rightarrow> (Inl e, calls)
        | (Inr satelliteImageUrl, calls) \<Rightarrow>
            (case analyzePropertyWithLLM cfg w (Some satelliteImageUrl) leadType of
               (Inl e, calls') \<Rightarrow> (Inl e, calls @ calls')
             | (Inr analysis, calls') \<Rightarrow>
                 if to_primitive_throws (field analysis ''model'')
                 then (Inl TypeError, calls @ calls')
                 else (Inr \<lparr>v_leadType = leadType, v_satelliteImageUrl = satelliteImageUrl,
                              v_analysis = analysis, v_timestamp = now\<rparr>,
                       calls @ calls'))))"

definition vision_call :: "call \<Rightarrow> bool" where
  "vision_call c = (case c of MapsGet _ _ \<Rightarrow> False | _ \<Rightarrow> True)"

section \<open>Batch lead service\<close>

record price_range =
  range_min :: int
  range_max :: int

definition PRICE_RANGES :: "price_range list" where
  "PRICE_RANGES =
     [\<lparr>range_min = 0, range_max = 100000\<rparr>,
      \<lparr>range_min = 100001, range_max = 300000\<rparr>,
      \<lparr>range_min = 300001, range_max = 500000\<rparr>,
      \<lparr>range_min = 500001, range_max = 750000\<rparr>,
      \<lparr>range_min = 750001, range_max = 1000000\<rparr>,
      \<lparr>range_min = 1000001, range_max = 1500000\<rparr>,
      \<lparr>range_min = 1500001, range_max = 2000000\<rparr>,
      \<lparr>range_min = 2000001, range_max = 5000000\<rparr>]"

definition getBufferSize :: "int \<Rightarrow> int" where
  "getBufferSize requestedLeads = requestedLeads + 15"


record filters =
  minPrice :: int
  maxPrice :: int
  minBedrooms :: int
  maxBedrooms :: int

text \<open>
  \<open>zillowService.searchProperties\<close> is the listings client: for a location and a set
  of filters it returns the body of the provider's reply or throws.
\<close>

type_synonym search = "jsval \<Rightarrow> filters \<Rightarrow> error + jsval"

text \<open>\<open>seenIds.has(id)\<close>: a set compares its members as \<open>===\<close> does (no \<open>NaN\<close> here).\<close>

definition seen_has :: "jsval list \<Rightarrow> jsval \<Rightarrow> bool" where
  "seen_has seenIds i = list_ex (\<lambda>x. strict_eq x i) seenIds"

text \<open>
  The inner loop over the properties of one reply. It leaves early when the total is
  reached, and by the exception of reading \<open>property.id\<close> on \<open>null\<close>, which the
  \<open>try\<close> around the band catches: what was appended before stays.
\<close>

fun add_properties ::
  "int \<Rightarrow> jsval list \<Rightarrow> jsval list \<times> jsval list \<Rightarrow> jsval list \<times> jsval list" where
  "add_properties totalNeeded [] (allProperties, seenIds) = (allProperties, seenIds)"
| "add_properties totalNeeded (p # ps) (allProperties, seenIds) =
     (case get_prop p ''id'' of
        None \<Rightarrow> (allProperties, seenIds)
      | Some i \<Rightarrow>
          if \<not> seen_has seenIds i
          then (if totalNeeded \<le> int (length (allProperties @ [p]))
                then (allProperties @ [p], seenIds @ [i])
                else add_properties totalNeeded ps (allProperties @ [p], seenIds @ [i]))
          else add_properties totalNeeded ps (allProperties, seenIds))"

text \<open>
  What \<open>for (const property of x)\<close> runs over: the elements of an array, the characters
  of a string; any other value is not iterable (\<open>None\<close>, a \<open>TypeError\<close>).
\<close>

definition iterate :: "jsval \<Rightarrow> jsval list option" where
  "iterate x = (case x of
       JArr ps \<Rightarrow> Some ps
     | JStr s \<Rightarrow> Some (map (\<lambda>c. JStr [c]) s)
     | _ \<Rightarrow> None)"

definition band_filters :: "jsval \<Rightarrow> price_range \<Rightarrow> filters" where
  "band_filters leadType priceRange =
     \<lparr>minPrice = range_min priceRange, maxPrice = range_max priceRange,
      minBedrooms = (if is_lead_type leadType ''PoolLeadGen'' then 3 else 2),
      maxBedrooms = 6\<rparr>"

text \<open>The body of the loop for one band: the search and what it appends.\<close>

definition search_band ::
  "search \<Rightarrow> jsval \<Rightarrow> jsval \<Rightarrow> int \<Rightarrow> price_range \<Rightarrow> jsval list \<times> jsval list \<Rightarrow>
     jsval list \<times> jsval list" where
  "search_band searchProperties location leadType totalNeeded priceRange st =
     (case searchProperties location (band_filters leadType priceRange) of
        Inl e \<Rightarrow> st
      | Inr results \<Rightarrow>
          if truthy results \<and> truthy (field results ''data'')
             \<and> truthy (field (field results ''data'') ''properties'')
          then (case iterate (field (field results ''data'') ''properties'') of
                  None \<Rightarrow> st
                | Some ps \<Rightarrow> add_properties totalNeeded ps st)
          else st)"

text \<open>
  The loop over the bands. Beside the properties it returns the bands it has searched,
  in order.
\<close>

fun search_ranges ::
  "search \<Rightarrow> jsval \<Rightarrow> jsval \<Rightarrow> int \<Rightarrow> price_range list \<Rightarrow> jsval list \<times> jsval list \<Rightarrow>
     jsval list \<times> price_range list" where
  "search_ranges searchProperties location leadType totalNeeded [] (allProperties, seenIds) =
     (allProperties, [])"
| "search_ranges searchProperties location leadType totalNeeded (priceRange # rest)
       (allProperties, seenIds) =
     (if totalNeeded \<le> int (length allProperties) then (allProperties, [])
      else (case search_ranges searchProperties location leadType totalNeeded rest
                   (search_band searchProperties location leadType totalNeeded priceRange
                      (allProperties, seenIds)) of
              (found, searched) \<Rightarrow> (found, priceRange # searched)))"

definition searchAcrossPriceRanges ::
  "search \<Rightarrow> jsval \<Rightarrow> jsval \<Rightarrow> int \<Rightarrow> jsval list \<times> price_range list" where
  "searchAcrossPriceRanges searchProperties location leadType totalNeeded =
     search_ranges searchProperties location leadType totalNeeded PRICE_RANGES ([], [])"

text \<open>The number of bands the specification allows for a fetch target.\<close>

definition ranges_needed :: "int \<Rightarrow> nat" where
  "ranges_needed fetchTarget = min (nat \<lceil>real_of_int fetchTarget / 20\<rceil>) 4"

section \<open>Cache service\<close>

text \<open>
  Modelled from the spec: the key-value store with per-entry expiry that the cache
  service wraps (the package \<open>node-cache\<close>) is not among the sources. The store maps
  a key to a value and the time its entry expires; an expired entry behaves as absent;
  a store operation can fail (here: on a key that is neither a string nor a number),
  and a time to live of zero means no expiry. Times are in milliseconds, times to live
  in seconds. A stored value is a copy, equal to the original in every field.
\<close>

record entry =
  expires :: real
  stored :: jsval

record store =
  stdTTL :: real
  entries :: "(jsval \<times> entry) list"

definition valid_key :: "jsval \<Rightarrow> bool" where
  "valid_key k = (case k of JStr _ \<Rightarrow> True | JNum _ \<Rightarrow> True | _ \<Rightarrow> False)"

definition deadline :: "real \<Rightarrow> real \<Rightarrow> real option \<Rightarrow> real" where
  "deadline std now ttl =
     (let seconds = (case ttl of None \<Rightarrow> std | Some n \<Rightarrow> n)
      in if seconds = 0 then 0 else if seconds < 0 then - 1 else now + seconds * 1000)"

definition expired :: "real \<Rightarrow> real \<Rightarrow> bool" where
  "expired t now = (t \<noteq> 0 \<and> t < now)"

definition store_set :: "store \<Rightarrow> real \<Rightarrow> jsval \<Rightarrow> jsval \<Rightarrow> real option \<Rightarrow> error + store" where
  "store_set c now key val ttl =
     (if \<not> valid_key key then Inl (Error ''The key argument has to be of type string or number'')
      else Inr (c\<lparr>entries :=
             (key, \<lparr>expires = deadline (stdTTL c) now ttl, stored = val\<rparr>)
               # filter (\<lambda>(k, e). k \<noteq> key) (entries c)\<rparr>))"

definition store_get :: "store \<Rightarrow> real \<Rightarrow> jsval \<Rightarrow> error + jsval \<times> store" where
  "store_get c now key =
     (if \<not> valid_key key then Inl (Error ''The key argument has to be of type string or number'')
      else (case map_of (entries c) key of
          None \<Rightarrow> Inr (JUndefined, c)
        | Some e \<Rightarrow>
            if expired (expires e) now
            then Inr (JUndefined, c\<lparr>entries := filter (\<lambda>(k, e). k \<noteq> key) (entries c)\<rparr>)
            else Inr (stored e, c)))"

text \<open>
  The service's own methods. \<open>ttl\<close> is \<open>None\<close> for \<open>null\<close> (the default of the
  parameter): then the store is called without a time to live and uses its own.
\<close>

definition cache_get :: "store \<Rightarrow> real \<Rightarrow> jsval \<Rightarrow> error + jsval \<times> store" where
  "cache_get c now key =
     (case store_get c now key of
        Inl e \<Rightarrow> Inl e
      | Inr (val, c') \<Rightarrow> if val \<noteq> JUndefined then Inr (val, c') else Inr (JUndefined, c'))"

definition cache_set :: "store \<Rightarrow> real \<Rightarrow> jsval \<Rightarrow> jsval \<Rightarrow> real option \<Rightarrow> bool \<times> store" where
  "cache_set c now key val ttl =
     (case (if ttl \<noteq> None then store_set c now key val ttl else store_set c now key val None) of
        Inl e \<Rightarrow> (False, c)
      | Inr c' \<Rightarrow> (True, c'))"

section \<open>Basic facts\<close>

lemma get_prop_truthy: "truthy v \<Longrightarrow> get_prop v k = Some (field v k)"
  by (cases v) (simp_all add: get_prop_def)

lemma field_value_is_object: "field v k = x \<Longrightarrow> x \<noteq> JUndefined \<Longrightarrow> truthy v"
  by (cases v) (auto simp add: field_def)

lemma js_or_num: "js_or (JNum c) (JNum 0) = JNum c"
  by (simp add: js_or_def)

lemma js_ge_num: "js_ge cv (JNum c) k = Some (k \<le> c)"
  by (simp add: js_ge_def)

lemma abs_diff_50_num: "abs_diff_50 cv (JNum c) = Some (Some \<bar>c - 50\<bar>)"
  by (simp add: abs_diff_50_def)



lemma abs_diff_50_defined: "js_ge cv v k = Some b \<Longrightarrow> \<exists>x. abs_diff_50 cv v = Some x"
  by (auto simp add: js_ge_def abs_diff_50_def)

lemma fresh_severity: "severity fresh_discrepancy = SevNone"
  by (simp add: fresh_discrepancy_def)

lemma fresh_detected: "\<not> detected fresh_discrepancy"
  by (simp add: fresh_discrepancy_def)

lemma rethrow_calls: "snd (rethrow p r) = snd r"
  by (cases r) (auto simp add: rethrow_def split: sum.splits)

section \<open>The fallback chain of the vision providers\<close>

lemma groq_calls:
  "truthy (groqApiKey cfg) \<Longrightarrow> valid_lead_type lt
     \<Longrightarrow> snd (analyzePropertyWithGroq cfg w (Some url) lt) = [GroqPost]"
  by (simp add: analyzePropertyWithGroq_def rethrow_calls split: sum.splits)

text \<open>
  C1, as stated, fails. The primary provider answers with an object that lacks the
  confidence field, which \<open>parseAnalysisResponse\<close> rejects; the error does not
  propagate: the secondary provider is asked, and its analysis is the result.
\<close>

theorem malformed_primary_example:
  "parseAnalysisResponse (JsonObject [(''has_pool'', JBool True)]) (JStr ''PoolLeadGen'') =
     Inl (Wrapped ''Failed to parse LLM analysis: ''
           (Error ''Invalid confidence score in response''))
   \<and> analyzePropertyWithLLM
       \<lparr>googleMapsApiKey = JStr ''maps-key'', openaiApiKey = JStr ''openai-key'',
        groqApiKey = JStr ''groq-key'', geminiApiKey = JStr ''gemini-key''\<rparr>
       \<lparr>maps_get = (\<lambda>lat lon. None),
        openai_post = (\<lambda>url lt. Inr (JsonObject [(''has_pool'', JBool True)])),
        groq_post = (\<lambda>url lt. Inr (JsonObject [(''has_pool'', JBool True),
                                                 (''confidence'', JNum 90)])),
        image_fetch = (\<lambda>url. None),
        gemini_post = (\<lambda>url lt. Inl (Error ''timeout''))\<rparr>
       (Some (StaticMap 25 (- 80))) (JStr ''PoolLeadGen'') =
     (Inr (JObj [(''has_pool'', JBool True), (''confidence'', JNum 90)]),
      [OpenAIPost, GroqPost])"
  by (simp add: analyzePropertyWithLLM_def analyze_primary_def analyze_fallback_def
      analyzePropertyWithGroq_def parseAnalysisResponse_def validate_analysis_def rethrow_def
      valid_lead_type_def js_includes_def is_lead_type_def is_boolean_def
      invalid_confidence_def field_def)

text \<open>
  C1, amended. When the primary provider's reply is received but fails validation, the
  error is handled like every other failure of the primary: the secondary provider is
  attempted, the tertiary if the secondary fails too, and only when all three fail does
  the operation fail, naming the primary's validation error as the cause. With a
  configured secondary provider its request is always sent.
\<close>

theorem malformed_primary_falls_back:
  assumes key: "truthy (openaiApiKey cfg)"
    and lt: "valid_lead_type lt"
    and reply: "openai_post w url lt = Inr text"
    and bad: "parseAnalysisResponse text lt = Inl e"
  shows "(case analyzePropertyWithGroq cfg w (Some url) lt of
            (Inr a, gc) \<Rightarrow> analyzePropertyWithLLM cfg w (Some url) lt = (Inr a, OpenAIPost # gc)
          | (Inl ge, gc) \<Rightarrow>
              (case analyzePropertyWithGemini cfg w (Some url) lt of
                 (Inr a, mc) \<Rightarrow>
                   analyzePropertyWithLLM cfg w (Some url) lt = (Inr a, OpenAIPost # gc @ mc)
               | (Inl me, mc) \<Rightarrow>
                   analyzePropertyWithLLM cfg w (Some url) lt =
                     (Inl (Wrapped
                        ''Failed to analyze image with all providers (OpenAI, Groq, Gemini): ''
                        e),
                      OpenAIPost # gc @ mc)))
     \<and> (truthy (groqApiKey cfg) \<longrightarrow>
          GroqPost \<in> set (snd (analyzePropertyWithLLM cfg w (Some url) lt)))"
proof -
  have p: "analyze_primary cfg w (Some url) lt = (Inl e, [OpenAIPost])"
    using key lt by (simp add: analyze_primary_def reply bad)
  have first: "(case analyzePropertyWithGroq cfg w (Some url) lt of
            (Inr a, gc) \<Rightarrow> analyzePropertyWithLLM cfg w (Some url) lt = (Inr a, OpenAIPost # gc)
          | (Inl ge, gc) \<Rightarrow>
              (case analyzePropertyWithGemini cfg w (Some url) lt of
                 (Inr a, mc) \<Rightarrow>
                   analyzePropertyWithLLM cfg w (Some url) lt = (Inr a, OpenAIPost # gc @ mc)
               | (Inl me, mc) \<Rightarrow>
                   analyzePropertyWithLLM cfg w (Some url) lt =
                     (Inl (Wrapped
                        ''Failed to analyze image with all providers (OpenAI, Groq, Gemini): ''
                        e),
                      OpenAIPost # gc @ mc)))"
    by (simp add: analyzePropertyWithLLM_def analyze_fallback_def p
        split: prod.splits sum.splits)
  have "GroqPost \<in> set (snd (analyzePropertyWithLLM cfg w (Some url) lt))"
    if g: "truthy (groqApiKey cfg)"
    using groq_calls [OF g lt, of w url]
    by (auto simp add: analyzePropertyWithLLM_def analyze_fallback_def p
        split: prod.splits sum.splits)
  with first show ?thesis by blast
qed

theorem malformed_primary_falls_back_witness:
  "analyzePropertyWithLLM
       \<lparr>googleMapsApiKey = JStr ''maps-key'', openaiApiKey = JStr ''openai-key'',
        groqApiKey = JStr ''groq-key'', geminiApiKey = JStr ''gemini-key''\<rparr>
       \<lparr>maps_get = (\<lambda>lat lon. None),
        openai_post = (\<lambda>url lt. Inr (JsonObject [])),
        groq_post = (\<lambda>url lt. Inl (Error ''timeout'')),
        image_fetch = (\<lambda>url. None),
        gemini_post = (\<lambda>url lt. Inr (JsonObject [(''has_pool'', JBool True),
                                                   (''confidence'', JNum 75)]))\<rparr>
       (Some (StaticMap 25 (- 80))) (JStr ''PoolLeadGen'') =
     (Inr (JObj [(''has_pool'', JBool True), (''confidence'', JNum 75)]),
      [OpenAIPost, GroqPost, ImageFetch, GeminiPost])"
  using malformed_primary_falls_back
    [of "\<lparr>googleMapsApiKey = JStr ''maps-key'', openaiApiKey = JStr ''openai-key'',
        groqApiKey = JStr ''groq-key'', geminiApiKey = JStr ''gemini-key''\<rparr>"
        "JStr ''PoolLeadGen''"
        "\<lparr>maps_get = (\<lambda>lat lon. None),
        openai_post = (\<lambda>url lt. Inr (JsonObject [])),
        groq_post = (\<lambda>url lt. Inl (Error ''timeout'')),
        image_fetch = (\<lambda>url. None),
        gemini_post = (\<lambda>url lt. Inr (JsonObject [(''has_pool'', JBool True),
                                                   (''confidence'', JNum 75)]))\<rparr>"
        "StaticMap 25 (- 80)" "JsonObject []"
        "Wrapped ''Failed to parse LLM analysis: '' (Error ''Invalid has_pool field in response'')"]
  by (simp add: analyzePropertyWithGroq_def analyzePropertyWithGemini_def fetchImageAsBase64_def
      parseAnalysisResponse_def validate_analysis_def rethrow_def
      valid_lead_type_def js_includes_def is_lead_type_def is_boolean_def
      invalid_confidence_def field_def)

section \<open>Discrepancies of a backyard evaluation\<close>

text \<open>
  C2. What the code does when a backyard size mismatch (severity major) and a surface
  type mismatch meet in one evaluation: the surface branch keeps the type
  \<open>backyard_size_mismatch\<close> but overwrites the severity with minor.
\<close>

theorem surface_mismatch_overwrites_major:
  assumes z: "truthy zillowData" and v: "truthy visualAnalysis"
    and not_ideal: "\<not> truthy (js_or (field visualAnalysis ''is_underdeveloped'') (JBool False))"
    and has_yard: "strict_neq (field zillowData ''has_backyard'') (JBool False)"
    and low_area: "js_or (field visualAnalysis ''estimated_free_area'') (JStr ''low'') = JStr ''low''"
    and sure: "js_ge cv (js_or (field visualAnalysis ''confidence'') (JNum 0)) 90 = Some True"
    and surfaces: "truthy (field zillowData ''surface_type'')"
      "truthy (field visualAnalysis ''surface_type'')"
      "strict_neq (field zillowData ''surface_type'') (field visualAnalysis ''surface_type'')"
  shows "\<exists>d. compareZillowWithVisual cv zillowData visualAnalysis (JStr ''BackyardBoost'') = Some d
     \<and> detected d \<and> dtype d = Some ''backyard_size_mismatch''
     \<and> map detail_field (details d) = [''estimated_free_area'', ''surface_type'']
     \<and> severity d = Minor"
proof -
  obtain x where diff: "abs_diff_50 cv (js_or (field visualAnalysis ''confidence'') (JNum 0)) = Some x"
    using abs_diff_50_defined [OF sure] by blast
  show ?thesis
    using z v not_ideal has_yard surfaces
    by (simp add: compareZillowWithVisual_def compareBackyardData_def get_prop_truthy [OF z]
        get_prop_truthy [OF v] low_area sure diff is_lead_type_def fresh_discrepancy_def
        no_type_def Let_def)
qed

theorem surface_mismatch_overwrites_major_witness:
  "\<exists>d. compareZillowWithVisual (\<lambda>v. None)
     (JObj [(''has_backyard'', JBool True), (''surface_type'', JStr ''grass'')])
     (JObj [(''is_empty_backyard'', JBool False), (''is_underdeveloped'', JBool False),
            (''surface_type'', JStr ''concrete''), (''estimated_free_area'', JStr ''low''),
            (''confidence'', JNum 95), (''development_potential'', JStr ''low'')])
     (JStr ''BackyardBoost'') = Some d
     \<and> detected d \<and> dtype d = Some ''backyard_size_mismatch''
     \<and> map detail_field (details d) = [''estimated_free_area'', ''surface_type'']
     \<and> severity d = Minor"
  using surface_mismatch_overwrites_major
    [of "JObj [(''has_backyard'', JBool True), (''surface_type'', JStr ''grass'')]"
        "JObj [(''is_empty_backyard'', JBool False), (''is_underdeveloped'', JBool False),
            (''surface_type'', JStr ''concrete''), (''estimated_free_area'', JStr ''low''),
            (''confidence'', JNum 95), (''development_potential'', JStr ''low'')]"
        "\<lambda>v. None"]
  by (simp add: field_def js_or_def js_ge_def strict_neq_def)

section \<open>The search across price bands\<close>

text \<open>
  C3. What the code does for a request of 10 leads (fetch target 25, for which the
  specification allows two bands of four): the list has eight bands, and when every
  band yields one new property all eight are searched.
\<close>

theorem all_eight_bands_searched:
  "length PRICE_RANGES = 8
   \<and> ranges_needed (getBufferSize 10) = 2
   \<and> searchAcrossPriceRanges
       (\<lambda>location f. Inr (JObj [(''data'', JObj [(''properties'',
            JArr [JObj [(''id'', JNum (real_of_int (minPrice f)))]])])]))
       (JStr ''Miami, FL'') (JStr ''PoolLeadGen'') (getBufferSize 10) =
     (map (\<lambda>r. JObj [(''id'', JNum (real_of_int (range_min r)))]) PRICE_RANGES, PRICE_RANGES)"
  by (simp add: PRICE_RANGES_def ranges_needed_def getBufferSize_def searchAcrossPriceRanges_def
      search_band_def band_filters_def iterate_def field_def get_prop_def seen_has_def)

section \<open>Discrepancies of a pool evaluation\<close>

lemma comparePoolData_mismatch:
  assumes z: "truthy zillowData" and v: "truthy visualAnalysis"
    and zp: "js_or (field zillowData ''has_pool'') (JBool False) = JBool a"
    and vp: "js_or (field visualAnalysis ''has_pool'') (JBool False) = JBool b"
    and ab: "a \<noteq> b"
    and c: "field visualAnalysis ''confidence'' = JNum c"
  shows "compareZillowWithVisual cv zillowData visualAnalysis (JStr ''PoolLeadGen'') =
     Some \<lparr>detected = True, dtype = Some ''pool_mismatch'',
           details = [\<lparr>detail_field = ''has_pool'', zillowValue = JBool a,
                       visualValue = JBool b, detail_confidence = JNum c\<rparr>],
           confidenceDiff = Some \<bar>c - 50\<bar>,
           severity = (if 80 \<le> c then Major else if 60 \<le> c then Minor else SevNone)\<rparr>"
  using ab z v
  by (auto simp add: compareZillowWithVisual_def comparePoolData_def get_prop_truthy [OF z]
      get_prop_truthy [OF v] zp vp c js_or_num js_ge_num abs_diff_50_num is_lead_type_def
      strict_neq_def fresh_discrepancy_def Let_def)

text \<open>
  C4. In a pool evaluation where the provider's and the vision's pool presence are
  booleans that differ, a discrepancy of type \<open>pool_mismatch\<close> is detected; its severity
  is major exactly when the vision confidence is at least 80, minor exactly when it is
  at least 60 and below 80, and none exactly when it is below 60.
\<close>

theorem pool_mismatch_severity_tiers:
  assumes "truthy zillowData" and "truthy visualAnalysis"
    and "js_or (field zillowData ''has_pool'') (JBool False) = JBool a"
    and "js_or (field visualAnalysis ''has_pool'') (JBool False) = JBool b"
    and "a \<noteq> b"
    and "field visualAnalysis ''confidence'' = JNum c"
  shows "\<exists>d. compareZillowWithVisual cv zillowData visualAnalysis (JStr ''PoolLeadGen'') = Some d
     \<and> detected d \<and> dtype d = Some ''pool_mismatch''
     \<and> (severity d = Major \<longleftrightarrow> 80 \<le> c)
     \<and> (severity d = Minor \<longleftrightarrow> 60 \<le> c \<and> c < 80)
     \<and> (severity d = SevNone \<longleftrightarrow> c < 60)"
  unfolding comparePoolData_mismatch [OF assms] by simp

theorem pool_mismatch_severity_tiers_witness:
  "(\<exists>d. compareZillowWithVisual (\<lambda>v. None) (JObj [(''has_pool'', JBool False)])
          (JObj [(''has_pool'', JBool True), (''confidence'', JNum 80)])
          (JStr ''PoolLeadGen'') = Some d
       \<and> detected d \<and> dtype d = Some ''pool_mismatch'' \<and> severity d = Major)
   \<and> (\<exists>d. compareZillowWithVisual (\<lambda>v. None) (JObj [(''has_pool'', JBool True)])
          (JObj [(''has_pool'', JBool False), (''confidence'', JNum 60)])
          (JStr ''PoolLeadGen'') = Some d
       \<and> detected d \<and> dtype d = Some ''pool_mismatch'' \<and> severity d = Minor)"
  using pool_mismatch_severity_tiers [of "JObj [(''has_pool'', JBool False)]"
      "JObj [(''has_pool'', JBool True), (''confidence'', JNum 80)]" False True 80 "\<lambda>v. None"]
    pool_mismatch_severity_tiers [of "JObj [(''has_pool'', JBool True)]"
      "JObj [(''has_pool'', JBool False), (''confidence'', JNum 60)]" True False 60 "\<lambda>v. None"]
  by (auto simp add: field_def js_or_def)

section \<open>Recommendation\<close>

lemma comparePoolData_major_detected:
  "comparePoolData cv z v fresh_discrepancy = Some d \<Longrightarrow> severity d = Major \<Longrightarrow> detected d"
  by (auto simp add: comparePoolData_def fresh_discrepancy_def Let_def
      split: if_splits Option.bind_splits)

lemma compareBackyardData_major_detected:
  "compareBackyardData cv z v fresh_discrepancy = Some d \<Longrightarrow> severity d = Major
     \<Longrightarrow> detected d"
  by (auto simp add: compareBackyardData_def fresh_discrepancy_def Let_def
      split: if_splits Option.bind_splits)

lemma compare_major_detected:
  "compareZillowWithVisual cv z v lt = Some d \<Longrightarrow> severity d = Major \<Longrightarrow> detected d"
  using fresh_severity
  by (auto simp add: compareZillowWithVisual_def
      dest: comparePoolData_major_detected compareBackyardData_major_detected
      split: if_splits)

lemma calculateLeadQuality_major_low:
  "calculateLeadQuality cv z v d lt = Some qa \<Longrightarrow> detected d \<Longrightarrow> severity d = Major
     \<Longrightarrow> qa_qualityScore qa = Low"
  by (auto simp add: calculateLeadQuality_def Let_def split: if_splits Option.bind_splits)

lemma getRecommendation_spec:
  "(severity d = Major \<longrightarrow> detected d)
     \<Longrightarrow> getRecommendation q d = recommendation_spec q (severity d)"
  by (cases q) (auto simp add: getRecommendation_def recommendation_spec_def)

lemma report_parts:
  assumes "generateQualityReport cv now lid z vv lt = Some r"
  shows "\<exists>v qa. compareZillowWithVisual cv z v lt = Some (discrepancy r)
     \<and> calculateLeadQuality cv z v (discrepancy r) lt = Some qa
     \<and> qualityScore r = qa_qualityScore qa
     \<and> recommendation r = getRecommendation (qa_qualityScore qa) (discrepancy r)"
  using assms
  by (auto simp add: generateQualityReport_def Let_def split: Option.bind_splits)

text \<open>
  C5. In every quality report the reconciler produces, a discrepancy of severity major
  comes with a recommendation to review or to reject, never to approve; and the
  recommendation is the function of the quality score and the severity that the
  specification gives: high approves, medium approves unless the severity is major
  (then review), low rejects.
\<close>

theorem major_severity_never_approved:
  assumes "generateQualityReport cv now lid z vv lt = Some r"
  shows "(severity (discrepancy r) = Major \<longrightarrow>
            (verdict (recommendation r) = ''REVIEW'' \<or> verdict (recommendation r) = ''REJECT'')
            \<and> verdict (recommendation r) \<noteq> ''APPROVE'')
     \<and> recommendation r = recommendation_spec (qualityScore r) (severity (discrepancy r))"
proof -
  obtain v qa where d: "compareZillowWithVisual cv z v lt = Some (discrepancy r)"
    and qa: "calculateLeadQuality cv z v (discrepancy r) lt = Some qa"
    and q: "qualityScore r = qa_qualityScore qa"
    and rec: "recommendation r = getRecommendation (qa_qualityScore qa) (discrepancy r)"
    using report_parts [OF assms] by blast
  have det: "severity (discrepancy r) = Major \<longrightarrow> detected (discrepancy r)"
    using compare_major_detected [OF d] by blast
  have spec: "recommendation r = recommendation_spec (qualityScore r) (severity (discrepancy r))"
    using getRecommendation_spec [OF det] rec q by simp
  have "severity (discrepancy r) = Major \<longrightarrow> qualityScore r = Low"
    using calculateLeadQuality_major_low [OF qa] det q by simp
  then show ?thesis
    using spec by (auto simp add: recommendation_spec_def verdict_def)
qed

theorem major_severity_never_approved_witness:
  "\<exists>r. generateQualityReport (\<lambda>v. None) ''2024-01-01T00:00:00.000Z'' (JStr ''zpid-1'')
          (JObj [(''has_pool'', JBool False)])
          (JObj [(''analysis'', JObj [(''has_pool'', JBool True), (''confidence'', JNum 85)])])
          (JStr ''PoolLeadGen'') = Some r
     \<and> severity (discrepancy r) = Major
     \<and> qualityScore r = Low
     \<and> verdict (recommendation r) = ''REJECT''"
proof -
  have "\<exists>r. generateQualityReport (\<lambda>v. None) ''2024-01-01T00:00:00.000Z'' (JStr ''zpid-1'')
          (JObj [(''has_pool'', JBool False)])
          (JObj [(''analysis'', JObj [(''has_pool'', JBool True), (''confidence'', JNum 85)])])
          (JStr ''PoolLeadGen'') = Some r
     \<and> severity (discrepancy r) = Major \<and> qualityScore r = Low"
    by (simp add: generateQualityReport_def compareZillowWithVisual_def comparePoolData_def
        calculateLeadQuality_def flagLeadDiscrepancy_def abs_diff_50_def get_prop_def
        field_def js_or_def js_ge_def is_lead_type_def strict_neq_def fresh_discrepancy_def
        Let_def)
  then obtain r where r: "generateQualityReport (\<lambda>v. None) ''2024-01-01T00:00:00.000Z''
          (JStr ''zpid-1'') (JObj [(''has_pool'', JBool False)])
          (JObj [(''analysis'', JObj [(''has_pool'', JBool True), (''confidence'', JNum 85)])])
          (JStr ''PoolLeadGen'') = Some r"
    and major: "severity (discrepancy r) = Major" and low: "qualityScore r = Low"
    by blast
  have "verdict (recommendation r) = ''REJECT''"
    using major_severity_never_approved [OF r] major low
    by (simp add: recommendation_spec_def verdict_def)
  with r major low show ?thesis by blast
qed

section \<open>The ideal backyard lead\<close>

lemma compareBackyardData_ideal:
  assumes ud: "field v ''is_underdeveloped'' = JBool True"
    and dp: "field v ''development_potential'' = JStr ''high''"
  shows "compareZillowWithVisual cv z v (JStr ''BackyardBoost'') = Some fresh_discrepancy"
proof -
  have v: "truthy v"
    using field_value_is_object [OF ud] by simp
  show ?thesis
    by (simp add: compareZillowWithVisual_def compareBackyardData_def get_prop_truthy [OF v]
        ud dp js_or_def is_lead_type_def Let_def)
qed

lemma calculateLeadQuality_ideal:
  assumes ud: "field v ''is_underdeveloped'' = JBool True"
    and dp: "field v ''development_potential'' = JStr ''high''"
    and c: "field v ''confidence'' = JNum c"
  shows "\<exists>qa. calculateLeadQuality cv z v fresh_discrepancy (JStr ''BackyardBoost'') = Some qa
     \<and> qa_qualityScore qa = High"
proof -
  have v: "truthy v"
    using field_value_is_object [OF ud] by simp
  show ?thesis
    using v
    by (simp add: calculateLeadQuality_def get_prop_truthy [OF v] ud dp c js_or_num js_ge_num
        js_or_def is_lead_type_def Let_def fresh_discrepancy_def)
qed

text \<open>
  C6. In a backyard evaluation whose vision analysis reports an underdeveloped yard of
  high development potential, with a confidence that is a number, no discrepancy is
  detected whatever the other fields and the provider record are, and the quality
  score is high (also when the confidence is below 80).
\<close>

theorem underdeveloped_high_potential_is_ideal:
  assumes an: "field visualValidation ''analysis'' = v"
    and ud: "field v ''is_underdeveloped'' = JBool True"
    and dp: "field v ''development_potential'' = JStr ''high''"
    and c: "field v ''confidence'' = JNum c"
  shows "\<exists>r. generateQualityReport cv now lid z visualValidation (JStr ''BackyardBoost'') = Some r
     \<and> \<not> detected (discrepancy r) \<and> qualityScore r = High"
proof -
  have v: "truthy v"
    using field_value_is_object [OF ud] by simp
  then have "v \<noteq> JUndefined" by auto
  then have vv: "truthy visualValidation"
    using field_value_is_object [OF an] by simp
  obtain qa where qa: "calculateLeadQuality cv z v fresh_discrepancy (JStr ''BackyardBoost'') = Some qa"
    and hi: "qa_qualityScore qa = High"
    using calculateLeadQuality_ideal [OF ud dp c] by blast
  show ?thesis
    using v hi
    by (simp add: generateQualityReport_def get_prop_truthy [OF vv] get_prop_truthy [OF v] an
        js_or_def compareBackyardData_ideal [OF ud dp] qa fresh_detected Let_def)
qed

theorem underdeveloped_high_potential_is_ideal_witness:
  "\<exists>r. generateQualityReport (\<lambda>v. None) ''2024-01-01T00:00:00.000Z'' (JStr ''zpid-1'')
          (JObj [(''has_backyard'', JBool True), (''surface_type'', JStr ''grass'')])
          (JObj [(''analysis'',
             JObj [(''is_empty_backyard'', JBool False), (''is_underdeveloped'', JBool True),
                   (''surface_type'', JStr ''dirt''), (''estimated_free_area'', JStr ''low''),
                   (''confidence'', JNum 70), (''development_potential'', JStr ''high'')])])
          (JStr ''BackyardBoost'') = Some r
     \<and> \<not> detected (discrepancy r) \<and> qualityScore r = High"
  using underdeveloped_high_potential_is_ideal
    [of "JObj [(''analysis'',
             JObj [(''is_empty_backyard'', JBool False), (''is_underdeveloped'', JBool True),
                   (''surface_type'', JStr ''dirt''), (''estimated_free_area'', JStr ''low''),
                   (''confidence'', JNum 70), (''development_potential'', JStr ''high'')])]"
        "JObj [(''is_empty_backyard'', JBool False), (''is_underdeveloped'', JBool True),
                   (''surface_type'', JStr ''dirt''), (''estimated_free_area'', JStr ''low''),
                   (''confidence'', JNum 70), (''development_potential'', JStr ''high'')]"
        70 "\<lambda>v. None" "''2024-01-01T00:00:00.000Z''" "JStr ''zpid-1''"
        "JObj [(''has_backyard'', JBool True), (''surface_type'', JStr ''grass'')]"]
  by (simp add: field_def)

section \<open>What the verification checks before it sends a request\<close>

lemma groq_invalid_type:
  "\<not> valid_lead_type lt \<Longrightarrow> \<exists>e. analyzePropertyWithGroq cfg w (Some url) lt = (Inl e, [])"
  by (simp add: analyzePropertyWithGroq_def rethrow_def)

lemma gemini_invalid_type:
  "\<not> valid_lead_type lt \<Longrightarrow> \<exists>e. analyzePropertyWithGemini cfg w (Some url) lt = (Inl e, [])"
  by (simp add: analyzePropertyWithGemini_def rethrow_def)

lemma primary_invalid_type:
  "\<not> valid_lead_type lt \<Longrightarrow> \<exists>e. analyze_primary cfg w (Some url) lt = (Inl e, [])"
  using groq_invalid_type [of lt cfg w url]
  by (auto simp add: analyze_primary_def)

lemma llm_invalid_type:
  assumes "\<not> valid_lead_type lt"
  shows "\<exists>e. analyzePropertyWithLLM cfg w (Some url) lt = (Inl e, [])"
proof -
  obtain e0 where p: "analyze_primary cfg w (Some url) lt = (Inl e0, [])"
    using primary_invalid_type [OF assms] by blast
  obtain e1 where g: "analyzePropertyWithGroq cfg w (Some url) lt = (Inl e1, [])"
    using groq_invalid_type [OF assms] by blast
  obtain e2 where m: "analyzePropertyWithGemini cfg w (Some url) lt = (Inl e2, [])"
    using gemini_invalid_type [OF assms] by blast
  show ?thesis
    by (simp add: analyzePropertyWithLLM_def analyze_fallback_def p g m)
qed

lemma maps_calls_only:
  "\<not> list_ex vision_call (snd (getGoogleMapsStaticImage cfg w lat lon))"
  by (auto simp add: getGoogleMapsStaticImage_def rethrow_calls vision_call_def
      split: jsval.splits option.splits)

lemma maps_not_numbers:
  "\<not> is_number lat \<or> \<not> is_number lon
     \<Longrightarrow> \<exists>e. getGoogleMapsStaticImage cfg w lat lon = (Inl e, [])"
  by (auto simp add: getGoogleMapsStaticImage_def rethrow_def is_number_def
      split: jsval.splits)

text \<open>
  C7, as stated, fails. A latitude of 95 is outside the range, and the verification
  neither fails nor stops before a request: the satellite image is requested, the
  primary vision provider is asked, and its analysis is returned.
\<close>

theorem out_of_range_latitude_is_verified:
  "verify_property_visually
     \<lparr>googleMapsApiKey = JStr ''maps-key'', openaiApiKey = JStr ''openai-key'',
        groqApiKey = JStr ''groq-key'', geminiApiKey = JStr ''gemini-key''\<rparr>
     \<lparr>maps_get = (\<lambda>lat lon. None),
      openai_post = (\<lambda>url lt. Inr (JsonObject [(''has_pool'', JBool False),
                                                 (''confidence'', JNum 90)])),
      groq_post = (\<lambda>url lt. Inl (Error ''timeout'')),
      image_fetch = (\<lambda>url. None),
      gemini_post = (\<lambda>url lt. Inl (Error ''timeout''))\<rparr>
     ''2024-01-01T00:00:00.000Z'' (JNum 95) (JNum 0) (JStr ''PoolLeadGen'') =
   (Inr \<lparr>v_leadType = JStr ''PoolLeadGen'', v_satelliteImageUrl = StaticMap 95 0,
          v_analysis = JObj [(''has_pool'', JBool False), (''confidence'', JNum 90)],
          v_timestamp = ''2024-01-01T00:00:00.000Z''\<rparr>,
    [MapsGet 95 0, OpenAIPost])"
  by (simp add: verify_property_visually_def getGoogleMapsStaticImage_def
      analyzePropertyWithLLM_def analyze_primary_def parseAnalysisResponse_def
      validate_analysis_def rethrow_def valid_lead_type_def js_includes_def is_lead_type_def
      is_boolean_def invalid_confidence_def field_def)

text \<open>
  C7, amended. The verification fails before any imagery or vision provider is
  consulted when the latitude or the longitude is not a number (a number's range is
  not checked). When the category is not one of PoolLeadGen and BackyardBoost it fails
  as well, and no request reaches a vision provider; the satellite image may have been
  requested by then.
\<close>

theorem verify_rejects_without_vision_request:
  "(\<not> is_number lat \<or> \<not> is_number lon \<longrightarrow>
      (\<exists>e. verify_property_visually cfg w now lat lon lt = (Inl e, [])))
   \<and> (\<not> valid_lead_type lt \<longrightarrow>
        (\<exists>e. fst (verify_property_visually cfg w now lat lon lt) = Inl e)
        \<and> \<not> list_ex vision_call (snd (verify_property_visually cfg w now lat lon lt)))"
proof (intro conjI impI)
  assume "\<not> is_number lat \<or> \<not> is_number lon"
  then obtain e where "getGoogleMapsStaticImage cfg w lat lon = (Inl e, [])"
    using maps_not_numbers by blast
  then show "\<exists>e. verify_property_visually cfg w now lat lon lt = (Inl e, [])"
    by (auto simp add: verify_property_visually_def rethrow_def)
next
  assume lt: "\<not> valid_lead_type lt"
  show "\<exists>e. fst (verify_property_visually cfg w now lat lon lt) = Inl e"
  proof (cases "getGoogleMapsStaticImage cfg w lat lon")
    case (Pair r calls)
    show ?thesis
    proof (cases r)
      case (Inl e)
      then show ?thesis
        using Pair by (auto simp add: verify_property_visually_def rethrow_def)
    next
      case (Inr url)
      obtain e where "analyzePropertyWithLLM cfg w (Some url) lt = (Inl e, [])"
        using llm_invalid_type [OF lt] by blast
      then show ?thesis
        using Pair Inr by (auto simp add: verify_property_visually_def rethrow_def)
    qed
  qed
next
  assume lt: "\<not> valid_lead_type lt"
  show "\<not> list_ex vision_call (snd (verify_property_visually cfg w now lat lon lt))"
  proof (cases "getGoogleMapsStaticImage cfg w lat lon")
    case (Pair r calls)
    have calls: "\<not> list_ex vision_call calls"
      using maps_calls_only [of cfg w lat lon] Pair by simp
    show ?thesis
    proof (cases r)
      case (Inl e)
      then show ?thesis
        using Pair calls by (auto simp add: verify_property_visually_def rethrow_def)
    next
      case (Inr url)
      obtain e where "analyzePropertyWithLLM cfg w (Some url) lt = (Inl e, [])"
        using llm_invalid_type [OF lt] by blast
      then show ?thesis
        using Pair Inr calls by (auto simp add: verify_property_visually_def rethrow_def)
    qed
  qed
qed

theorem verify_rejects_without_vision_request_witness:
  "(\<exists>e. verify_property_visually
       \<lparr>googleMapsApiKey = JStr ''maps-key'', openaiApiKey = JStr ''openai-key'',
        groqApiKey = JStr ''groq-key'', geminiApiKey = JStr ''gemini-key''\<rparr>
       \<lparr>maps_get = (\<lambda>lat lon. None),
        openai_post = (\<lambda>url lt. Inl (Error ''timeout'')),
        groq_post = (\<lambda>url lt. Inl (Error ''timeout'')),
        image_fetch = (\<lambda>url. None),
        gemini_post = (\<lambda>url lt. Inl (Error ''timeout''))\<rparr>
       ''2024-01-01T00:00:00.000Z'' (JStr ''25.76'') (JNum 0) (JStr ''PoolLeadGen'')
     = (Inl e, []))
   \<and> (\<exists>e. fst (verify_property_visually
       \<lparr>googleMapsApiKey = JStr ''maps-key'', openaiApiKey = JStr ''openai-key'',
        groqApiKey = JStr ''groq-key'', geminiApiKey = JStr ''gemini-key''\<rparr>
       \<lparr>maps_get = (\<lambda>lat lon. None),
        openai_post = (\<lambda>url lt. Inl (Error ''timeout'')),
        groq_post = (\<lambda>url lt. Inl (Error ''timeout'')),
        image_fetch = (\<lambda>url. None),
        gemini_post = (\<lambda>url lt. Inl (Error ''timeout''))\<rparr>
       ''2024-01-01T00:00:00.000Z'' (JNum 25) (JNum 0) (JStr ''Roofing'')) = Inl e)
   \<and> snd (verify_property_visually
       \<lparr>googleMapsApiKey = JStr ''maps-key'', openaiApiKey = JStr ''openai-key'',
        groqApiKey = JStr ''groq-key'', geminiApiKey = JStr ''gemini-key''\<rparr>
       \<lparr>maps_get = (\<lambda>lat lon. None),
        openai_post = (\<lambda>url lt. Inl (Error ''timeout'')),
        groq_post = (\<lambda>url lt. Inl (Error ''timeout'')),
        image_fetch = (\<lambda>url. None),
        gemini_post = (\<lambda>url lt. Inl (Error ''timeout''))\<rparr>
       ''2024-01-01T00:00:00.000Z'' (JNum 25) (JNum 0) (JStr ''Roofing'')) = [MapsGet 25 0]"
proof -
  have a: "\<exists>e. verify_property_visually
       \<lparr>googleMapsApiKey = JStr ''maps-key'', openaiApiKey = JStr ''openai-key'',
        groqApiKey = JStr ''groq-key'', geminiApiKey = JStr ''gemini-key''\<rparr>
       \<lparr>maps_get = (\<lambda>lat lon. None),
        openai_post = (\<lambda>url lt. Inl (Error ''timeout'')),
        groq_post = (\<lambda>url lt. Inl (Error ''timeout'')),
        image_fetch = (\<lambda>url. None),
        gemini_post = (\<lambda>url lt. Inl (Error ''timeout''))\<rparr>
       ''2024-01-01T00:00:00.000Z'' (JStr ''25.76'') (JNum 0) (JStr ''PoolLeadGen'')
     = (Inl e, [])"
    using verify_rejects_without_vision_request
      [of "JStr ''25.76''" "JNum 0"
       "\<lparr>googleMapsApiKey = JStr ''maps-key'', openaiApiKey = JStr ''openai-key'',
        groqApiKey = JStr ''groq-key'', geminiApiKey = JStr ''gemini-key''\<rparr>"
       "\<lparr>maps_get = (\<lambda>lat lon. None),
        openai_post = (\<lambda>url lt. Inl (Error ''timeout'')),
        groq_post = (\<lambda>url lt. Inl (Error ''timeout'')),
        image_fetch = (\<lambda>url. None),
        gemini_post = (\<lambda>url lt. Inl (Error ''timeout''))\<rparr>"
       "''2024-01-01T00:00:00.000Z''" "JStr ''PoolLeadGen''"]
    by (simp add: is_number_def)
  have b: "\<exists>e. fst (verify_property_visually
       \<lparr>googleMapsApiKey = JStr ''maps-key'', openaiApiKey = JStr ''openai-key'',
        groqApiKey = JStr ''groq-key'', geminiApiKey = JStr ''gemini-key''\<rparr>
       \<lparr>maps_get = (\<lambda>lat lon. None),
        openai_post = (\<lambda>url lt. Inl (Error ''timeout'')),
        groq_post = (\<lambda>url lt. Inl (Error ''timeout'')),
        image_fetch = (\<lambda>url. None),
        gemini_post = (\<lambda>url lt. Inl (Error ''timeout''))\<rparr>
       ''2024-01-01T00:00:00.000Z'' (JNum 25) (JNum 0) (JStr ''Roofing'')) = Inl e"
    using verify_rejects_without_vision_request
      [of "JNum 25" "JNum 0"
       "\<lparr>googleMapsApiKey = JStr ''maps-key'', openaiApiKey = JStr ''openai-key'',
        groqApiKey = JStr ''groq-key'', geminiApiKey = JStr ''gemini-key''\<rparr>"
       "\<lparr>maps_get = (\<lambda>lat lon. None),
        openai_post = (\<lambda>url lt. Inl (Error ''timeout'')),
        groq_post = (\<lambda>url lt. Inl (Error ''timeout'')),
        image_fetch = (\<lambda>url. None),
        gemini_post = (\<lambda>url lt. Inl (Error ''timeout''))\<rparr>"
       "''2024-01-01T00:00:00.000Z''" "JStr ''Roofing''"]
    by (simp add: valid_lead_type_def js_includes_def)
  have c: "snd (verify_property_visually
       \<lparr>googleMapsApiKey = JStr ''maps-key'', openaiApiKey = JStr ''openai-key'',
        groqApiKey = JStr ''groq-key'', geminiApiKey = JStr ''gemini-key''\<rparr>
       \<lparr>maps_get = (\<lambda>lat lon. None),
        openai_post = (\<lambda>url lt. Inl (Error ''timeout'')),
        groq_post = (\<lambda>url lt. Inl (Error ''timeout'')),
        image_fetch = (\<lambda>url. None),
        gemini_post = (\<lambda>url lt. Inl (Error ''timeout''))\<rparr>
       ''2024-01-01T00:00:00.000Z'' (JNum 25) (JNum 0) (JStr ''Roofing'')) = [MapsGet 25 0]"
    by (simp add: verify_property_visually_def getGoogleMapsStaticImage_def
        analyzePropertyWithLLM_def analyze_primary_def analyze_fallback_def
        analyzePropertyWithGroq_def analyzePropertyWithGemini_def rethrow_def
        valid_lead_type_def js_includes_def)
  from a b c show ?thesis by blast
qed

section \<open>The cache round trip\<close>

text \<open>
  C8. A value written with \<open>set\<close> under a key, when \<open>set\<close> returns true, is what
  \<open>get\<close> returns for that key as long as the entry has not expired and nothing else
  has touched the cache: the value read equals the value written.
\<close>

theorem cache_round_trip:
  assumes set: "cache_set c now key val ttl = (True, c')"
    and live: "\<not> expired (deadline (stdTTL c) now ttl) now'"
  shows "cache_get c' now' key = Inr (val, c')"
proof -
  have k: "valid_key key"
    using set by (auto simp add: cache_set_def store_set_def split: if_splits)
  have c': "c' = c\<lparr>entries :=
             (key, \<lparr>expires = deadline (stdTTL c) now ttl, stored = val\<rparr>)
               # filter (\<lambda>(k, e). k \<noteq> key) (entries c)\<rparr>"
    using set k by (auto simp add: cache_set_def store_set_def split: if_splits)
  show ?thesis
    using k live by (simp add: cache_get_def store_get_def c')
qed

theorem cache_round_trip_witness:
  "cache_get
     \<lparr>stdTTL = 3600,
      entries = [(JStr ''visual-validation:latitude=25.76'',
                  \<lparr>expires = 1801000, stored = JObj [(''leadType'', JStr ''PoolLeadGen'')]\<rparr>)]\<rparr>
     1000 (JStr ''visual-validation:latitude=25.76'') =
   Inr (JObj [(''leadType'', JStr ''PoolLeadGen'')],
     \<lparr>stdTTL = 3600,
      entries = [(JStr ''visual-validation:latitude=25.76'',
                  \<lparr>expires = 1801000, stored = JObj [(''leadType'', JStr ''PoolLeadGen'')]\<rparr>)]\<rparr>)"
  using cache_round_trip [of "\<lparr>stdTTL = 3600, entries = []\<rparr>" 1000
      "JStr ''visual-validation:latitude=25.76''" "JObj [(''leadType'', JStr ''PoolLeadGen'')]"
      "Some 1800" _ 1000]
  by (simp add: cache_set_def store_set_def valid_key_def deadline_def expired_def)

section \<open>A provider record without a pool flag\<close>

text \<open>
  C9. In a pool evaluation, a provider record whose \<open>has_pool\<close> is absent or any other
  falsy value counts as the assertion that there is no pool: when the vision analysis
  reports a pool, a \<open>pool_mismatch\<close> is detected, recorded against the provider value
  \<open>false\<close>, with the severity of the confidence tiers.
\<close>

theorem absent_pool_flag_asserts_no_pool:
  assumes z: "truthy zillowData"
    and zp: "\<not> truthy (field zillowData ''has_pool'')"
    and vp: "field visualAnalysis ''has_pool'' = JBool True"
    and c: "field visualAnalysis ''confidence'' = JNum c"
  shows "\<exists>d. compareZillowWithVisual cv zillowData visualAnalysis (JStr ''PoolLeadGen'') = Some d
     \<and> detected d \<and> dtype d = Some ''pool_mismatch''
     \<and> map zillowValue (details d) = [JBool False]
     \<and> severity d = (if 80 \<le> c then Major else if 60 \<le> c then Minor else SevNone)"
proof -
  have v: "truthy visualAnalysis"
    using field_value_is_object [OF vp] by simp
  have "js_or (field zillowData ''has_pool'') (JBool False) = JBool False"
    using zp by (simp add: js_or_def)
  moreover have "js_or (field visualAnalysis ''has_pool'') (JBool False) = JBool True"
    using vp by (simp add: js_or_def)
  ultimately show ?thesis
    using comparePoolData_mismatch [OF z v _ _ _ c, of False True cv] by simp
qed

theorem absent_pool_flag_asserts_no_pool_witness:
  "(\<exists>d. compareZillowWithVisual (\<lambda>v. None) (JObj [(''price'', JNum 450000)])
         (JObj [(''has_pool'', JBool True), (''confidence'', JNum 85)])
         (JStr ''PoolLeadGen'') = Some d
      \<and> detected d \<and> dtype d = Some ''pool_mismatch''
      \<and> map zillowValue (details d) = [JBool False] \<and> severity d = Major)
   \<and> (\<exists>d. compareZillowWithVisual (\<lambda>v. None) (JObj [(''has_pool'', JNull)])
         (JObj [(''has_pool'', JBool True), (''confidence'', JNum 65)])
         (JStr ''PoolLeadGen'') = Some d
      \<and> detected d \<and> dtype d = Some ''pool_mismatch''
      \<and> map zillowValue (details d) = [JBool False] \<and> severity d = Minor)"
  using absent_pool_flag_asserts_no_pool [of "JObj [(''price'', JNum 450000)]"
      "JObj [(''has_pool'', JBool True), (''confidence'', JNum 85)]" 85 "\<lambda>v. None"]
    absent_pool_flag_asserts_no_pool [of "JObj [(''has_pool'', JNull)]"
      "JObj [(''has_pool'', JBool True), (''confidence'', JNum 65)]" 65 "\<lambda>v. None"]
  by (simp add: field_def)

section \<open>The validity predicate\<close>




end
